theory Spec2Isabelle
  imports Main
begin

section \<open>The inventory ledger of the medical shop service\<close>

text \<open>
  The development embeds the Inventory model (models/Inventory.js), the inventory
  controller (controllers/inventoryController.js), the request validators
  (validators/inventoryValidator.js, wired in routes/shopRoutes.js) and the order event
  handlers (\<open>handleOrderEvents\<close> and the four handlers it dispatches to) of the
  medical shop service.

  Quantities are JavaScript numbers that the service uses as unit counts; they are integers
  here. Dates are milliseconds since the epoch, and every operation receives the clock
  reading \<open>now\<close> that \<open>new Date()\<close> would give it. Object ids and batch numbers are
  strings (batch numbers already trimmed). The fields \<open>unit\<close>, \<open>pricing\<close>,
  \<open>supplier\<close> and \<open>location\<close> take no part in any quantity, status or movement and are
  left out of the records; the requests considered are those whose pricing, supplier and
  location parts pass their validators. Publishing to Kafka changes no document and is
  left out as well.
\<close>

subsection \<open>Documents\<close>

text \<open>An entry of \<open>stockMovements\<close>.\<close>

record movement =
  mv_type :: string
  mv_quantity :: int
  mv_reason :: string
  mv_reference :: "string option"
  mv_performedBy :: string
  mv_notes :: string
  mv_timestamp :: int

text \<open>An Inventory document; \<open>alerts.lowStockThreshold\<close> and \<open>alerts.expiryAlertDays\<close>
  are flattened into two fields.\<close>

record lot =
  shopId :: string
  medicineId :: string
  batchNumber :: string
  quantity :: int
  reservedQuantity :: int
  availableQuantity :: int
  manufacturingDate :: int
  expiryDate :: int
  status :: string
  lowStockThreshold :: int
  expiryAlertDays :: int
  stockMovements :: "movement list"
  lastStockUpdate :: int
  createdBy :: string

text \<open>The three collections the inventory code reads and writes. A MedicalShop document
  is its \<open>_id\<close> with its \<open>ownerId\<close>, a Medicine document its \<open>_id\<close>. Inventory
  documents are never deleted, so the position of a document in the collection serves as
  its \<open>_id\<close>.\<close>

record db =
  MedicalShop :: "(string \<times> string) list"
  Medicine :: "string list"
  Inventory :: "lot list"

record user =
  uid :: string
  role :: string

datatype error =
  HttpError nat string
  | ValidationError "string list"
  | DuplicateKey
  | TypeError

subsection \<open>Schema validators of the Inventory model\<close>

definition statusEnum :: "string list" where
  "statusEnum = [''active'', ''expired'', ''damaged'', ''returned'', ''low-stock'']"

definition movementTypeEnum :: "string list" where
  "movementTypeEnum = [''in'', ''out'', ''adjustment'', ''return'']"

definition movementReasonEnum :: "string list" where
  "movementReasonEnum =
     [''purchase'', ''sale'', ''damage'', ''expiry'', ''correction'', ''transfer'']"

text \<open>A value that casts to an ObjectId: a string of 24 hexadecimal digits, the form in
  which the services issue ids. (The string \<open>system\<close> that the cancelled handler passes
  has six characters and casts under no version of the driver.)\<close>

definition isHexDigit :: "char \<Rightarrow> bool" where
  "isHexDigit c = (c \<in> set ''0123456789abcdefABCDEF'')"

definition isObjectId :: "string \<Rightarrow> bool" where
  "isObjectId s = (length s = 24 \<and> list_all isHexDigit s)"

text \<open>The paths of one movement that fail validation (enum of \<open>type\<close>, enum of
  \<open>reason\<close>, cast of \<open>performedBy\<close>).\<close>

definition movementErrors :: "movement \<Rightarrow> string list" where
  "movementErrors m =
     (if mv_type m \<in> set movementTypeEnum then [] else [''stockMovements.type'']) @
     (if mv_reason m \<in> set movementReasonEnum then [] else [''stockMovements.reason'']) @
     (if isObjectId (mv_performedBy m) then [] else [''stockMovements.performedBy''])"

text \<open>The paths of a document that fail validation: the \<open>min\<close> and \<open>enum\<close>
  validators the schema declares, and those of every entry of \<open>stockMovements\<close>.
  Mongoose validates the whole loaded document before a save, before any \<open>pre("save")\<close>
  middleware of the schema runs, and reports every failing path in one ValidationError.\<close>

definition validationErrors :: "lot \<Rightarrow> string list" where
  "validationErrors d =
     (if quantity d < 0 then [''quantity''] else []) @
     (if reservedQuantity d < 0 then [''reservedQuantity''] else []) @
     (if availableQuantity d < 0 then [''availableQuantity''] else []) @
     (if status d \<in> set statusEnum then [] else [''status'']) @
     (if lowStockThreshold d < 0 then [''alerts.lowStockThreshold''] else []) @
     (if expiryAlertDays d < 0 then [''alerts.expiryAlertDays''] else []) @
     concat (map movementErrors (stockMovements d))"

subsection \<open>Saving\<close>

text \<open>The \<open>pre("save")\<close> middleware.\<close>

definition preSave :: "lot \<Rightarrow> lot" where
  "preSave d = d\<lparr>availableQuantity := max 0 (quantity d - reservedQuantity d)\<rparr>"

text \<open>\<open>doc.save()\<close> of the document with \<open>_id\<close> \<open>i\<close>: validation, then the
  \<open>pre("save")\<close> middleware, then the write. It returns the collection and the
  document in memory, or the error it throws (nothing is written then).\<close>

definition save :: "lot list \<Rightarrow> nat \<Rightarrow> lot \<Rightarrow> error + (lot list \<times> lot)" where
  "save coll i d =
     (if validationErrors d = [] then Inr (coll[i := preSave d], preSave d)
      else Inl (ValidationError (validationErrors d)))"

text \<open>\<open>Inventory.create(data)\<close>: the same steps for a new document, and the insert is
  refused by the unique index \<open>{shopId: 1, medicineId: 1}\<close> when a document with the
  same pair is stored.\<close>

definition create :: "lot list \<Rightarrow> lot \<Rightarrow> error + (lot list \<times> lot)" where
  "create coll d =
     (if validationErrors d = [] then
        (if list_ex (\<lambda>l. shopId l = shopId d \<and> medicineId l = medicineId d) coll
         then Inl DuplicateKey
         else Inr (coll @ [preSave d], preSave d))
      else Inl (ValidationError (validationErrors d)))"

text \<open>\<open>findOne(filter)\<close>: the \<open>_id\<close> of the first document that matches.\<close>

primrec findOne :: "('a \<Rightarrow> bool) \<Rightarrow> 'a list \<Rightarrow> nat option" where
  "findOne P [] = None"
| "findOne P (x # xs) = (if P x then Some 0 else map_option Suc (findOne P xs))"

definition findById :: "lot list \<Rightarrow> nat \<Rightarrow> lot option" where
  "findById coll i = (if i < length coll then Some (coll ! i) else None)"

subsection \<open>Instance methods\<close>

definition isLowStock :: "lot \<Rightarrow> bool" where
  "isLowStock d = (availableQuantity d \<le> lowStockThreshold d)"

definition isExpired :: "int \<Rightarrow> lot \<Rightarrow> bool" where
  "isExpired now d = (now > expiryDate d)"

text \<open>\<open>addStockMovement(type, quantity, reason, performedBy, reference, notes)\<close> on
  the document \<open>d\<close> with \<open>_id\<close> \<open>i\<close>. Its three update steps come first, named
  after the comments that head them in the source.\<close>

text \<open>"Update quantity based on movement type": \<open>return\<close> has no branch.\<close>

definition updateQuantity :: "string \<Rightarrow> int \<Rightarrow> lot \<Rightarrow> lot" where
  "updateQuantity type qty d =
     (if type = ''in'' then d\<lparr>quantity := quantity d + qty\<rparr>
      else if type = ''out'' then d\<lparr>quantity := quantity d - qty\<rparr>
      else if type = ''adjustment'' then d\<lparr>quantity := qty\<rparr>
      else d)"

text \<open>"Update available quantity".\<close>

definition updateAvailable :: "int \<Rightarrow> lot \<Rightarrow> lot" where
  "updateAvailable now d =
     d\<lparr>availableQuantity := max 0 (quantity d - reservedQuantity d), lastStockUpdate := now\<rparr>"

text \<open>"Update status if needed".\<close>

definition updateStatus :: "int \<Rightarrow> lot \<Rightarrow> lot" where
  "updateStatus now d =
     d\<lparr>status :=
         (if isExpired now d then ''expired''
          else if quantity d = 0 then ''out-of-stock''
          else if isLowStock d then ''low-stock''
          else ''active'')\<rparr>"

definition addStockMovement ::
  "int \<Rightarrow> lot list \<Rightarrow> nat \<Rightarrow> lot \<Rightarrow> string \<Rightarrow> int \<Rightarrow> string \<Rightarrow> string \<Rightarrow> string option \<Rightarrow> string
     \<Rightarrow> error + (lot list \<times> lot)" where
  "addStockMovement now coll i d type qty reason performedBy reference notes =
     (let movement = \<lparr>mv_type = type, mv_quantity = qty, mv_reason = reason,
                       mv_reference = reference, mv_performedBy = performedBy,
                       mv_notes = notes, mv_timestamp = now\<rparr>
      in save coll i
           (updateStatus now
              (updateAvailable now
                 (updateQuantity type qty
                    (d\<lparr>stockMovements := stockMovements d @ [movement]\<rparr>)))))"

subsection \<open>Order events\<close>

record orderItem =
  item_medicineId :: string
  item_batchNumber :: string
  item_quantity :: int

record orderData =
  orderId :: string
  order_shopId :: string
  items :: "orderItem list"
  userId :: string

record event =
  event_type :: string
  event_data :: orderData

text \<open>A \<open>for\<close> loop inside \<open>try { ... } catch\<close>: the first error thrown by the body
  ends the loop and is logged; what was saved before it stays saved. The result is the
  collection and the logged error, if any.\<close>

primrec forEachItem ::
  "(lot list \<Rightarrow> 'i \<Rightarrow> lot list \<times> error option) \<Rightarrow> lot list \<Rightarrow> 'i list
     \<Rightarrow> lot list \<times> error option" where
  "forEachItem body coll [] = (coll, None)"
| "forEachItem body coll (x # xs) =
     (case body coll x of
        (coll', None) \<Rightarrow> forEachItem body coll' xs
      | (coll', Some e) \<Rightarrow> (coll', Some e))"

definition findLot :: "string \<Rightarrow> orderItem \<Rightarrow> lot list \<Rightarrow> nat option" where
  "findLot shop item coll =
     findOne (\<lambda>l. shopId l = shop \<and> medicineId l = item_medicineId item \<and>
                   batchNumber l = item_batchNumber item) coll"

text \<open>The body of the loop of \<open>handleOrderPlaced\<close>.\<close>

definition placedItem :: "int \<Rightarrow> orderData \<Rightarrow> lot list \<Rightarrow> orderItem \<Rightarrow> lot list \<times> error option" where
  "placedItem now d coll item =
     (case findLot (order_shopId d) item coll of
        None \<Rightarrow> (coll, None)
      | Some i \<Rightarrow>
          (let inventory = coll ! i in
           if availableQuantity inventory < item_quantity item then (coll, None)
           else
             (case save coll i
                     (inventory\<lparr>reservedQuantity := reservedQuantity inventory + item_quantity item\<rparr>) of
                Inl e \<Rightarrow> (coll, Some e)
              | Inr (coll1, inventory1) \<Rightarrow>
                  (case addStockMovement now coll1 i inventory1 ''out'' (item_quantity item)
                          ''order_reservation'' (userId d) (Some (orderId d))
                          (''Reserved for order '' @ orderId d) of
                     Inl e \<Rightarrow> (coll1, Some e)
                   | Inr (coll2, inventory2) \<Rightarrow> (coll2, None)))))"

definition handleOrderPlaced :: "int \<Rightarrow> lot list \<Rightarrow> event \<Rightarrow> lot list \<times> error option" where
  "handleOrderPlaced now coll ev =
     forEachItem (placedItem now (event_data ev)) coll (items (event_data ev))"

text \<open>The body of the loop of \<open>handleOrderConfirmed\<close>.\<close>

definition confirmedItem :: "int \<Rightarrow> orderData \<Rightarrow> lot list \<Rightarrow> orderItem \<Rightarrow> lot list \<times> error option" where
  "confirmedItem now d coll item =
     (case findLot (order_shopId d) item coll of
        None \<Rightarrow> (coll, None)
      | Some i \<Rightarrow>
          (let inventory = coll ! i;
               inventory' = inventory\<lparr>reservedQuantity := reservedQuantity inventory - item_quantity item,
                                      quantity := quantity inventory - item_quantity item\<rparr>;
               inventory'' = inventory'\<lparr>availableQuantity :=
                                max 0 (quantity inventory' - reservedQuantity inventory')\<rparr>
           in case save coll i inventory'' of
                Inl e \<Rightarrow> (coll, Some e)
              | Inr (coll1, inventory1) \<Rightarrow>
                  (case addStockMovement now coll1 i inventory1 ''out'' (item_quantity item)
                          ''order_confirmed'' (userId d) (Some (orderId d))
                          (''Sold in order '' @ orderId d) of
                     Inl e \<Rightarrow> (coll1, Some e)
                   | Inr (coll2, inventory2) \<Rightarrow> (coll2, None))))"

definition handleOrderConfirmed :: "int \<Rightarrow> lot list \<Rightarrow> event \<Rightarrow> lot list \<times> error option" where
  "handleOrderConfirmed now coll ev =
     forEachItem (confirmedItem now (event_data ev)) coll (items (event_data ev))"

text \<open>The body of the loop of \<open>handleOrderCancelled\<close>.\<close>

definition cancelledItem :: "int \<Rightarrow> orderData \<Rightarrow> lot list \<Rightarrow> orderItem \<Rightarrow> lot list \<times> error option" where
  "cancelledItem now d coll item =
     (case findLot (order_shopId d) item coll of
        None \<Rightarrow> (coll, None)
      | Some i \<Rightarrow>
          (let inventory = coll ! i;
               inventory' = inventory\<lparr>reservedQuantity :=
                               max 0 (reservedQuantity inventory - item_quantity item)\<rparr>;
               inventory'' = inventory'\<lparr>availableQuantity :=
                                max 0 (quantity inventory' - reservedQuantity inventory')\<rparr>
           in case save coll i inventory'' of
                Inl e \<Rightarrow> (coll, Some e)
              | Inr (coll1, inventory1) \<Rightarrow>
                  (case addStockMovement now coll1 i inventory1 ''adjustment'' (quantity inventory1)
                          ''order_cancelled'' ''system'' (Some (orderId d))
                          (''Reservation released for cancelled order '' @ orderId d) of
                     Inl e \<Rightarrow> (coll1, Some e)
                   | Inr (coll2, inventory2) \<Rightarrow> (coll2, None))))"

definition handleOrderCancelled :: "int \<Rightarrow> lot list \<Rightarrow> event \<Rightarrow> lot list \<times> error option" where
  "handleOrderCancelled now coll ev =
     forEachItem (cancelledItem now (event_data ev)) coll (items (event_data ev))"

text \<open>\<open>handleOrderDelivered\<close> reads lots and publishes low stock alerts; it writes no
  document.\<close>

definition handleOrderDelivered :: "int \<Rightarrow> lot list \<Rightarrow> event \<Rightarrow> lot list \<times> error option" where
  "handleOrderDelivered now coll ev = (coll, None)"

definition handleOrderEvents :: "int \<Rightarrow> lot list \<Rightarrow> event \<Rightarrow> lot list \<times> error option" where
  "handleOrderEvents now coll ev =
     (if event_type ev = ''order.placed'' then handleOrderPlaced now coll ev
      else if event_type ev = ''order.confirmed'' then handleOrderConfirmed now coll ev
      else if event_type ev = ''order.delivered'' then handleOrderDelivered now coll ev
      else if event_type ev = ''order.cancelled'' then handleOrderCancelled now coll ev
      else (coll, None))"

subsection \<open>Request validators (validators/inventoryValidator.js)\<close>

text \<open>A request body is checked by \<open>validate(schema)\<close> before its controller runs. The
  controller then reads \<open>req.body\<close> itself, so keys the schema does not declare reach
  it unchanged; the bodies below carry, besides the declared keys, the undeclared keys
  \<open>reservedQuantity\<close>, \<open>availableQuantity\<close> and \<open>status\<close> of the document.\<close>

record createBody =
  body_shopId :: string
  body_medicineId :: string
  body_batchNumber :: string
  body_quantity :: int
  body_manufacturingDate :: int
  body_expiryDate :: int
  body_lowStockThreshold :: "int option"
  body_expiryAlertDays :: "int option"
  body_reservedQuantity :: "int option"
  body_availableQuantity :: "int option"
  body_status :: "string option"

record updateBody =
  upd_quantity :: "int option"
  upd_status :: "string option"
  upd_reservedQuantity :: "int option"
  upd_availableQuantity :: "int option"

record movementBody =
  mb_type :: string
  mb_quantity :: int
  mb_reason :: string
  mb_reference :: "string option"
  mb_notes :: "string option"

record bulkItem =
  bi_medicineId :: string
  bi_batchNumber :: string
  bi_quantity :: int
  bi_reservedQuantity :: "int option"
  bi_availableQuantity :: "int option"
  bi_status :: "string option"

record bulkBody =
  bulk_shopId :: string
  bulk_items :: "bulkItem list"

record alertBody =
  ab_lowStockThreshold :: int
  ab_expiryAlertDays :: int

definition atLeast0 :: "int option \<Rightarrow> bool" where
  "atLeast0 v = (case v of None \<Rightarrow> True | Some n \<Rightarrow> 0 \<le> n)"

definition createInventorySchema :: "createBody \<Rightarrow> bool" where
  "createInventorySchema b =
     (1 \<le> length (body_medicineId b) \<and>
      1 \<le> length (body_batchNumber b) \<and> length (body_batchNumber b) \<le> 50 \<and>
      0 \<le> body_quantity b \<and>
      atLeast0 (body_lowStockThreshold b) \<and> atLeast0 (body_expiryAlertDays b) \<and>
      body_expiryDate b > body_manufacturingDate b)"

definition updateInventorySchema :: "updateBody \<Rightarrow> bool" where
  "updateInventorySchema b =
     (atLeast0 (upd_quantity b) \<and>
      (case upd_status b of
         None \<Rightarrow> True
       | Some st \<Rightarrow> st \<in> set [''active'', ''expired'', ''damaged'', ''returned'']))"

definition stockMovementSchema :: "movementBody \<Rightarrow> bool" where
  "stockMovementSchema b =
     (mb_type b \<in> set [''in'', ''out'', ''adjustment''] \<and>
      1 \<le> mb_quantity b \<and>
      mb_reason b \<in> set [''purchase'', ''sale'', ''damage'', ''expiry'', ''correction'', ''transfer''] \<and>
      (case mb_notes b of None \<Rightarrow> True | Some n \<Rightarrow> length n \<le> 200))"

definition bulkInventoryUpdateSchema :: "bulkBody \<Rightarrow> bool" where
  "bulkInventoryUpdateSchema b =
     (list_all (\<lambda>it. 1 \<le> length (bi_medicineId it) \<and> 1 \<le> length (bi_batchNumber it) \<and>
                      0 \<le> bi_quantity it) (bulk_items b) \<and>
      1 \<le> length (bulk_items b) \<and> length (bulk_items b) \<le> 50)"

definition updateAlertSettingsSchema :: "alertBody \<Rightarrow> bool" where
  "updateAlertSettingsSchema b = (0 \<le> ab_lowStockThreshold b \<and> 0 \<le> ab_expiryAlertDays b)"

text \<open>The wrapper \<open>validate\<close> of routes/shopRoutes.js.\<close>

definition validate :: "('b \<Rightarrow> bool) \<Rightarrow> ('b \<Rightarrow> error + 'a) \<Rightarrow> 'b \<Rightarrow> error + 'a" where
  "validate schema handler body =
     (if schema body then handler body else Inl (HttpError 400 ''Validation failed''))"

subsection \<open>Controllers (controllers/inventoryController.js)\<close>

text \<open>The ownership test the controllers share: the request is refused when the user is
  neither the owner of the shop nor an admin.\<close>

definition notAuthorized :: "string \<Rightarrow> user \<Rightarrow> bool" where
  "notAuthorized ownerId u = (ownerId \<noteq> uid u \<and> role u \<noteq> ''admin'')"

text \<open>The document \<open>Inventory.create\<close> builds from \<open>inventoryData\<close>: the keys of the
  body, and the schema defaults for the others.\<close>

definition inventoryData :: "int \<Rightarrow> user \<Rightarrow> createBody \<Rightarrow> lot" where
  "inventoryData now u b =
     \<lparr>shopId = body_shopId b,
      medicineId = body_medicineId b,
      batchNumber = body_batchNumber b,
      quantity = body_quantity b,
      reservedQuantity = (case body_reservedQuantity b of None \<Rightarrow> 0 | Some r \<Rightarrow> r),
      availableQuantity = (case body_availableQuantity b of None \<Rightarrow> 0 | Some a \<Rightarrow> a),
      manufacturingDate = body_manufacturingDate b,
      expiryDate = body_expiryDate b,
      status = (case body_status b of None \<Rightarrow> ''active'' | Some st \<Rightarrow> st),
      lowStockThreshold = (case body_lowStockThreshold b of None \<Rightarrow> 10 | Some t \<Rightarrow> t),
      expiryAlertDays = (case body_expiryAlertDays b of None \<Rightarrow> 30 | Some t \<Rightarrow> t),
      stockMovements = [],
      lastStockUpdate = now,
      createdBy = uid u\<rparr>"

definition addInventoryItem :: "int \<Rightarrow> db \<Rightarrow> user \<Rightarrow> createBody \<Rightarrow> error + db" where
  "addInventoryItem now s u b =
     (case map_of (MedicalShop s) (body_shopId b) of
        None \<Rightarrow> Inl (HttpError 404 ''Shop not found'')
      | Some ownerId \<Rightarrow>
          if notAuthorized ownerId u
          then Inl (HttpError 403 ''Not authorized to manage this shop's inventory'')
          else if body_medicineId b \<notin> set (Medicine s)
          then Inl (HttpError 404 ''Medicine not found'')
          else
            (case findOne (\<lambda>l. shopId l = body_shopId b \<and> medicineId l = body_medicineId b \<and>
                                 batchNumber l = body_batchNumber b) (Inventory s) of
               Some existingInventory \<Rightarrow>
                 Inl (HttpError 400
                   ''Inventory item with this batch number already exists for this medicine'')
             | None \<Rightarrow>
                 (case create (Inventory s) (inventoryData now u b) of
                    Inl e \<Rightarrow> Inl e
                  | Inr (coll, inventory) \<Rightarrow> Inr (s\<lparr>Inventory := coll\<rparr>))))"

text \<open>\<open>findByIdAndUpdate(id, req.body, {new: true, runValidators: true})\<close>: the update
  validators check the paths the body sets, the paths are written, and no \<open>save\<close>
  middleware runs.\<close>

definition updateErrors :: "updateBody \<Rightarrow> string list" where
  "updateErrors b =
     (if atLeast0 (upd_quantity b) then [] else [''quantity'']) @
     (if atLeast0 (upd_reservedQuantity b) then [] else [''reservedQuantity'']) @
     (if atLeast0 (upd_availableQuantity b) then [] else [''availableQuantity'']) @
     (case upd_status b of
        None \<Rightarrow> []
      | Some st \<Rightarrow> if st \<in> set statusEnum then [] else [''status''])"

definition applyUpdate :: "updateBody \<Rightarrow> lot \<Rightarrow> lot" where
  "applyUpdate b d =
     d\<lparr>quantity := (case upd_quantity b of None \<Rightarrow> quantity d | Some q \<Rightarrow> q),
       reservedQuantity := (case upd_reservedQuantity b of None \<Rightarrow> reservedQuantity d | Some r \<Rightarrow> r),
       availableQuantity := (case upd_availableQuantity b of None \<Rightarrow> availableQuantity d | Some a \<Rightarrow> a),
       status := (case upd_status b of None \<Rightarrow> status d | Some st \<Rightarrow> st)\<rparr>"

definition findByIdAndUpdate :: "lot list \<Rightarrow> nat \<Rightarrow> updateBody \<Rightarrow> error + lot list" where
  "findByIdAndUpdate coll i b =
     (if updateErrors b = [] then Inr (coll[i := applyUpdate b (coll ! i)])
      else Inl (ValidationError (updateErrors b)))"

definition updateInventoryItem :: "db \<Rightarrow> user \<Rightarrow> nat \<Rightarrow> updateBody \<Rightarrow> error + db" where
  "updateInventoryItem s u i b =
     (case findById (Inventory s) i of
        None \<Rightarrow> Inl (HttpError 404 ''Inventory item not found'')
      | Some inventory \<Rightarrow>
          (case map_of (MedicalShop s) (shopId inventory) of
             None \<Rightarrow> Inl TypeError
           | Some ownerId \<Rightarrow>
               if notAuthorized ownerId u
               then Inl (HttpError 403 ''Not authorized to update this inventory item'')
               else
                 (case findByIdAndUpdate (Inventory s) i b of
                    Inl e \<Rightarrow> Inl e
                  | Inr coll \<Rightarrow> Inr (s\<lparr>Inventory := coll\<rparr>))))"

text \<open>The controller \<open>addStockMovement\<close> (the name without suffix is the method of the
  model).\<close>

definition addStockMovement_controller :: "int \<Rightarrow> db \<Rightarrow> user \<Rightarrow> nat \<Rightarrow> movementBody \<Rightarrow> error + db" where
  "addStockMovement_controller now s u i b =
     (case findById (Inventory s) i of
        None \<Rightarrow> Inl (HttpError 404 ''Inventory item not found'')
      | Some inventory \<Rightarrow>
          (case map_of (MedicalShop s) (shopId inventory) of
             None \<Rightarrow> Inl TypeError
           | Some ownerId \<Rightarrow>
               if notAuthorized ownerId u
               then Inl (HttpError 403 ''Not authorized to modify this inventory item'')
               else
                 (case addStockMovement now (Inventory s) i inventory (mb_type b) (mb_quantity b)
                         (mb_reason b) (uid u) (mb_reference b)
                         (case mb_notes b of None \<Rightarrow> [] | Some n \<Rightarrow> n) of
                    Inl e \<Rightarrow> Inl e
                  | Inr (coll, inventory') \<Rightarrow> Inr (s\<lparr>Inventory := coll\<rparr>))))"

text \<open>\<open>Object.assign(inventory, item)\<close> in \<open>bulkUpdateInventory\<close>; \<open>medicineId\<close>
  and \<open>batchNumber\<close> are those the document was found by.\<close>

definition assignItem :: "bulkItem \<Rightarrow> lot \<Rightarrow> lot" where
  "assignItem it d =
     d\<lparr>medicineId := bi_medicineId it,
       batchNumber := bi_batchNumber it,
       quantity := bi_quantity it,
       reservedQuantity := (case bi_reservedQuantity it of None \<Rightarrow> reservedQuantity d | Some r \<Rightarrow> r),
       availableQuantity := (case bi_availableQuantity it of None \<Rightarrow> availableQuantity d | Some a \<Rightarrow> a),
       status := (case bi_status it of None \<Rightarrow> status d | Some st \<Rightarrow> st)\<rparr>"

text \<open>The body of the loop of \<open>bulkUpdateInventory\<close>, whose own \<open>try/catch\<close> records
  a failed item and goes on to the next one.\<close>

definition bulkUpdateItem :: "string \<Rightarrow> lot list \<Rightarrow> bulkItem \<Rightarrow> lot list" where
  "bulkUpdateItem shop coll it =
     (case findOne (\<lambda>l. shopId l = shop \<and> medicineId l = bi_medicineId it \<and>
                          batchNumber l = bi_batchNumber it) coll of
        None \<Rightarrow> coll
      | Some i \<Rightarrow>
          (case save coll i (assignItem it (coll ! i)) of
             Inl e \<Rightarrow> coll
           | Inr (coll', inventory) \<Rightarrow> coll'))"

definition bulkUpdateInventory :: "db \<Rightarrow> user \<Rightarrow> bulkBody \<Rightarrow> error + db" where
  "bulkUpdateInventory s u b =
     (case map_of (MedicalShop s) (bulk_shopId b) of
        None \<Rightarrow> Inl (HttpError 404 ''Shop not found'')
      | Some ownerId \<Rightarrow>
          if notAuthorized ownerId u
          then Inl (HttpError 403 ''Not authorized to update this shop's inventory'')
          else Inr (s\<lparr>Inventory := foldl (bulkUpdateItem (bulk_shopId b)) (Inventory s) (bulk_items b)\<rparr>))"

definition updateAlertSettings :: "db \<Rightarrow> user \<Rightarrow> nat \<Rightarrow> alertBody \<Rightarrow> error + db" where
  "updateAlertSettings s u i b =
     (case findById (Inventory s) i of
        None \<Rightarrow> Inl (HttpError 404 ''Inventory item not found'')
      | Some inventory \<Rightarrow>
          (case map_of (MedicalShop s) (shopId inventory) of
             None \<Rightarrow> Inl TypeError
           | Some ownerId \<Rightarrow>
               if notAuthorized ownerId u
               then Inl (HttpError 403 ''Not authorized to update this inventory item'')
               else
                 (case save (Inventory s) i
                         (inventory\<lparr>lowStockThreshold := ab_lowStockThreshold b,
                                     expiryAlertDays := ab_expiryAlertDays b\<rparr>) of
                    Inl e \<Rightarrow> Inl e
                  | Inr (coll, inventory') \<Rightarrow> Inr (s\<lparr>Inventory := coll\<rparr>))))"

subsection \<open>Operations on the ledger\<close>

text \<open>Every way the service writes an Inventory document: the five routes (each behind
  its request validator) and the order events. A request that fails leaves the database
  as it was; an order event keeps what its handler saved before an error.\<close>

datatype operation =
  AddInventoryItem user createBody
  | UpdateInventoryItem user nat updateBody
  | AddStockMovement user nat movementBody
  | BulkUpdateInventory user bulkBody
  | UpdateAlertSettings user nat alertBody
  | OrderEvent event

definition orElse :: "db \<Rightarrow> error + db \<Rightarrow> db" where
  "orElse s r = (case r of Inl e \<Rightarrow> s | Inr s' \<Rightarrow> s')"

fun step :: "db \<Rightarrow> int \<times> operation \<Rightarrow> db" where
  "step s (now, AddInventoryItem u b) =
     orElse s (validate createInventorySchema (addInventoryItem now s u) b)"
| "step s (now, UpdateInventoryItem u i b) =
     orElse s (validate updateInventorySchema (updateInventoryItem s u i) b)"
| "step s (now, AddStockMovement u i b) =
     orElse s (validate stockMovementSchema (addStockMovement_controller now s u i) b)"
| "step s (now, BulkUpdateInventory u b) =
     orElse s (validate bulkInventoryUpdateSchema (bulkUpdateInventory s u) b)"
| "step s (now, UpdateAlertSettings u i b) =
     orElse s (validate updateAlertSettingsSchema (updateAlertSettings s u i) b)"
| "step s (now, OrderEvent ev) = s\<lparr>Inventory := fst (handleOrderEvents now (Inventory s) ev)\<rparr>"

definition run :: "db \<Rightarrow> (int \<times> operation) list \<Rightarrow> db" where
  "run s ops = foldl step s ops"

subsection \<open>Invariants and scenarios\<close>

text \<open>The first invariant of the ledger, for one lot.\<close>

definition nonNegative :: "lot \<Rightarrow> bool" where
  "nonNegative l = (0 \<le> quantity l \<and> 0 \<le> reservedQuantity l)"

text \<open>The second invariant of the ledger, for one lot.\<close>

definition availableDerived :: "lot \<Rightarrow> bool" where
  "availableDerived l = (availableQuantity l = max 0 (quantity l - reservedQuantity l))"

text \<open>The data of the scenarios: a shop with its owner, one medicine of the catalogue,
  the request that creates a lot of that medicine (low stock threshold 10, not expired
  at the times used), and an order event for one line item of batch \<open>B1\<close>.\<close>

definition owner :: user where
  "owner = \<lparr>uid = ''64b7f0c2a1d3e4f5a6b7c8d9'', role = ''shop-owner''\<rparr>"

definition shop1 :: string where
  "shop1 = ''64b7f0c2a1d3e4f5a6b70001''"

definition med1 :: string where
  "med1 = ''64b7f0c2a1d3e4f5a6b70002''"

definition emptyLedger :: db where
  "emptyLedger = \<lparr>MedicalShop = [(shop1, uid owner)], Medicine = [med1], Inventory = []\<rparr>"

definition newLot :: "string \<Rightarrow> int \<Rightarrow> createBody" where
  "newLot batch q =
     \<lparr>body_shopId = shop1, body_medicineId = med1, body_batchNumber = batch,
      body_quantity = q, body_manufacturingDate = 0, body_expiryDate = 1000000,
      body_lowStockThreshold = Some 10, body_expiryAlertDays = None,
      body_reservedQuantity = None, body_availableQuantity = None, body_status = None\<rparr>"

definition orderEvent :: "string \<Rightarrow> int \<Rightarrow> event" where
  "orderEvent kind q =
     \<lparr>event_type = kind,
      event_data = \<lparr>orderId = ''order-1'', order_shopId = shop1,
                     items = [\<lparr>item_medicineId = med1, item_batchNumber = ''B1'',
                               item_quantity = q\<rparr>],
                     userId = uid owner\<rparr>\<rparr>"

text \<open>The lot of the scenarios as it is stored, with the given quantities.\<close>

definition storedLot :: "int \<Rightarrow> int \<Rightarrow> int \<Rightarrow> lot" where
  "storedLot q r a =
     \<lparr>shopId = shop1, medicineId = med1, batchNumber = ''B1'', quantity = q,
      reservedQuantity = r, availableQuantity = a, manufacturingDate = 0,
      expiryDate = 1000000, status = ''active'', lowStockThreshold = 10,
      expiryAlertDays = 30, stockMovements = [], lastStockUpdate = 1,
      createdBy = uid owner\<rparr>"

section \<open>Properties\<close>

lemma reason_not_in_enum:
  "''order_reservation'' \<notin> set movementReasonEnum"
  "''order_confirmed'' \<notin> set movementReasonEnum"
  "''order_cancelled'' \<notin> set movementReasonEnum"
  by (simp_all add: movementReasonEnum_def)

subsection \<open>Lookups, validation errors and the movement method\<close>



lemma system_not_objectId: "\<not> isObjectId ''system''"
  by (simp add: isObjectId_def)

lemma movementErrors_reason:
  "mv_reason m \<notin> set movementReasonEnum \<Longrightarrow> ''stockMovements.reason'' \<in> set (movementErrors m)"
  by (simp add: movementErrors_def)

lemma movementErrors_performedBy:
  "\<not> isObjectId (mv_performedBy m) \<Longrightarrow> ''stockMovements.performedBy'' \<in> set (movementErrors m)"
  by (simp add: movementErrors_def)

lemma validationErrors_movement:
  "m \<in> set (stockMovements d) \<Longrightarrow> e \<in> set (movementErrors m) \<Longrightarrow> e \<in> set (validationErrors d)"
  by (auto simp: validationErrors_def)

lemma stockMovements_updateQuantity [simp]:
  "stockMovements (updateQuantity type qty d) = stockMovements d"
  by (simp add: updateQuantity_def)

lemma stockMovements_updateAvailable [simp]:
  "stockMovements (updateAvailable now d) = stockMovements d"
  by (simp add: updateAvailable_def)

lemma stockMovements_updateStatus [simp]:
  "stockMovements (updateStatus now d) = stockMovements d"
  by (simp add: updateStatus_def)

lemma save_invalid:
  "e \<in> set (validationErrors d) \<Longrightarrow> save coll i d = Inl (ValidationError (validationErrors d))"
  by (auto simp: save_def)

lemma addStockMovement_invalid_movement:
  assumes "e \<in> set (movementErrors \<lparr>mv_type = type, mv_quantity = qty, mv_reason = reason,
              mv_reference = reference, mv_performedBy = performedBy, mv_notes = notes,
              mv_timestamp = now\<rparr>)"
  shows "\<exists>errs. addStockMovement now coll i d type qty reason performedBy reference notes =
            Inl (ValidationError errs) \<and> e \<in> set errs"
proof -
  let ?m = "\<lparr>mv_type = type, mv_quantity = qty, mv_reason = reason, mv_reference = reference,
         mv_performedBy = performedBy, mv_notes = notes, mv_timestamp = now\<rparr>"
  let ?d = "updateStatus now (updateAvailable now (updateQuantity type qty
              (d\<lparr>stockMovements := stockMovements d @ [?m]\<rparr>)))"
  have "?m \<in> set (stockMovements ?d)" by simp
  then have "e \<in> set (validationErrors ?d)"
    using assms validationErrors_movement by blast
  then have "save coll i ?d = Inl (ValidationError (validationErrors ?d)) \<and> e \<in> set (validationErrors ?d)"
    using save_invalid by blast
  then show ?thesis
    unfolding addStockMovement_def Let_def by blast
qed

lemma addStockMovement_bad_reason:
  assumes "reason \<notin> set movementReasonEnum"
  shows "\<exists>errs. addStockMovement now coll i d type qty reason performedBy reference notes =
            Inl (ValidationError errs) \<and> ''stockMovements.reason'' \<in> set errs"
  by (rule addStockMovement_invalid_movement) (simp add: movementErrors_reason assms)

lemma addStockMovement_bad_performer:
  assumes "\<not> isObjectId performedBy"
  shows "\<exists>errs. addStockMovement now coll i d type qty reason performedBy reference notes =
            Inl (ValidationError errs) \<and> ''stockMovements.performedBy'' \<in> set errs"
  by (rule addStockMovement_invalid_movement) (simp add: movementErrors_performedBy assms)

lemma fst_after_movement:
  assumes "reason \<notin> set movementReasonEnum"
  shows "fst (case addStockMovement now c i d type qty reason performedBy reference notes of
                Inl e \<Rightarrow> (c, Some e)
              | Inr (c2, d2) \<Rightarrow> (c2, None)) = c"
proof -
  obtain errs where "addStockMovement now c i d type qty reason performedBy reference notes =
            Inl (ValidationError errs)"
    using addStockMovement_bad_reason[OF assms] by blast
  then show ?thesis by simp
qed

lemma fst_placedItem:
  "fst (placedItem now d coll item) =
     (case findLot (order_shopId d) item coll of
        None \<Rightarrow> coll
      | Some i \<Rightarrow>
          if availableQuantity (coll ! i) < item_quantity item then coll
          else if validationErrors ((coll ! i)\<lparr>reservedQuantity := reservedQuantity (coll ! i) + item_quantity item\<rparr>) = []
          then coll[i := preSave ((coll ! i)\<lparr>reservedQuantity := reservedQuantity (coll ! i) + item_quantity item\<rparr>)]
          else coll)"
  by (simp add: placedItem_def Let_def save_def fst_after_movement reason_not_in_enum split: option.splits)

lemma fst_confirmedItem:
  "fst (confirmedItem now d coll item) =
     (case findLot (order_shopId d) item coll of
        None \<Rightarrow> coll
      | Some i \<Rightarrow>
          if validationErrors ((coll ! i)\<lparr>reservedQuantity := reservedQuantity (coll ! i) - item_quantity item,
                 quantity := quantity (coll ! i) - item_quantity item,
                 availableQuantity := max 0 (quantity (coll ! i) - item_quantity item - (reservedQuantity (coll ! i) - item_quantity item))\<rparr>) = []
          then coll[i := preSave ((coll ! i)\<lparr>reservedQuantity := reservedQuantity (coll ! i) - item_quantity item,
                 quantity := quantity (coll ! i) - item_quantity item,
                 availableQuantity := max 0 (quantity (coll ! i) - item_quantity item - (reservedQuantity (coll ! i) - item_quantity item))\<rparr>)]
          else coll)"
  by (simp add: confirmedItem_def Let_def save_def fst_after_movement reason_not_in_enum split: option.splits)

lemma fst_cancelledItem:
  "fst (cancelledItem now d coll item) =
     (case findLot (order_shopId d) item coll of
        None \<Rightarrow> coll
      | Some i \<Rightarrow>
          if validationErrors ((coll ! i)\<lparr>reservedQuantity := max 0 (reservedQuantity (coll ! i) - item_quantity item),
                 availableQuantity := max 0 (quantity (coll ! i) - max 0 (reservedQuantity (coll ! i) - item_quantity item))\<rparr>) = []
          then coll[i := preSave ((coll ! i)\<lparr>reservedQuantity := max 0 (reservedQuantity (coll ! i) - item_quantity item),
                 availableQuantity := max 0 (quantity (coll ! i) - max 0 (reservedQuantity (coll ! i) - item_quantity item))\<rparr>)]
          else coll)"
  by (simp add: cancelledItem_def Let_def save_def fst_after_movement reason_not_in_enum split: option.splits)

subsection \<open>The order handlers record no movement\<close>

lemma map_update_same: "f x = f (xs ! i) \<Longrightarrow> map f (xs[i := x]) = map f xs"
  by (induction xs arbitrary: i) (auto split: nat.splits)

lemma forEachItem_invariant:
  assumes "\<And>c x. Q c \<Longrightarrow> Q (fst (body c x))" and "Q coll"
  shows "Q (fst (forEachItem body coll xs))"
  using assms(2)
proof (induction xs arbitrary: coll)
  case Nil
  then show ?case by simp
next
  case (Cons x xs)
  obtain c' r where b: "body coll x = (c', r)" by (cases "body coll x")
  have q: "Q c'" using assms(1)[OF Cons.prems, of x] b by simp
  show ?case
  proof (cases r)
    case None
    with b Cons.IH[OF q] show ?thesis by simp
  next
    case (Some e)
    with b q show ?thesis by simp
  qed
qed

lemma stockMovements_preSave [simp]: "stockMovements (preSave d) = stockMovements d"
  by (simp add: preSave_def)

lemma placedItem_movements:
  "map stockMovements (fst (placedItem now d coll item)) = map stockMovements coll"
  by (simp add: fst_placedItem map_update_same split: option.splits)

lemma confirmedItem_movements:
  "map stockMovements (fst (confirmedItem now d coll item)) = map stockMovements coll"
  by (simp add: fst_confirmedItem map_update_same split: option.splits)

lemma cancelledItem_movements:
  "map stockMovements (fst (cancelledItem now d coll item)) = map stockMovements coll"
  by (simp add: fst_cancelledItem map_update_same split: option.splits)

lemma handleOrderEvents_movements:
  "map stockMovements (fst (handleOrderEvents now coll ev)) = map stockMovements coll"
proof -
  let ?Q = "\<lambda>c. map stockMovements c = map stockMovements coll"
  have p: "?Q (fst (handleOrderPlaced now coll ev))"
    unfolding handleOrderPlaced_def
    by (rule forEachItem_invariant[where Q = ?Q]) (simp_all add: placedItem_movements)
  have c: "?Q (fst (handleOrderConfirmed now coll ev))"
    unfolding handleOrderConfirmed_def
    by (rule forEachItem_invariant[where Q = ?Q]) (simp_all add: confirmedItem_movements)
  have x: "?Q (fst (handleOrderCancelled now coll ev))"
    unfolding handleOrderCancelled_def
    by (rule forEachItem_invariant[where Q = ?Q]) (simp_all add: cancelledItem_movements)
  show ?thesis
    using p c x by (simp add: handleOrderEvents_def handleOrderDelivered_def)
qed

text \<open>
  Claim C10. Whenever an order handler calls \<open>addStockMovement\<close>, the call throws a
  ValidationError and writes nothing: the reasons \<open>order_reservation\<close>,
  \<open>order_confirmed\<close> and \<open>order_cancelled\<close> are outside the enum of
  \<open>stockMovements.reason\<close>, and the cancelled handler also passes \<open>system\<close> where an
  ObjectId is required. Hence no order event (placed, confirmed, delivered, cancelled or
  any other type) ever changes the movements stored with any lot.
\<close>

theorem order_movements_fail_validation:
  "(\<exists>errs. addStockMovement now coll i d ''out'' qty ''order_reservation'' performedBy reference notes
             = Inl (ValidationError errs) \<and> ''stockMovements.reason'' \<in> set errs) \<and>
   (\<exists>errs. addStockMovement now coll i d ''out'' qty ''order_confirmed'' performedBy reference notes
             = Inl (ValidationError errs) \<and> ''stockMovements.reason'' \<in> set errs) \<and>
   (\<exists>errs. addStockMovement now coll i d ''adjustment'' qty ''order_cancelled'' ''system'' reference notes
             = Inl (ValidationError errs) \<and> ''stockMovements.reason'' \<in> set errs \<and>
               ''stockMovements.performedBy'' \<in> set errs) \<and>
   map stockMovements (fst (handleOrderEvents now coll ev)) = map stockMovements coll"
proof -
  obtain e1 where e1: "addStockMovement now coll i d ''adjustment'' qty ''order_cancelled'' ''system'' reference notes
             = Inl (ValidationError e1)" "''stockMovements.reason'' \<in> set e1"
    using addStockMovement_bad_reason[OF reason_not_in_enum(3)] by blast
  obtain e2 where e2: "addStockMovement now coll i d ''adjustment'' qty ''order_cancelled'' ''system'' reference notes
             = Inl (ValidationError e2)" "''stockMovements.performedBy'' \<in> set e2"
    using addStockMovement_bad_performer[OF system_not_objectId] by blast
  have "e1 = e2" using e1(1) e2(1) by simp
  then have third: "\<exists>errs. addStockMovement now coll i d ''adjustment'' qty ''order_cancelled'' ''system'' reference notes
             = Inl (ValidationError errs) \<and> ''stockMovements.reason'' \<in> set errs \<and>
               ''stockMovements.performedBy'' \<in> set errs"
    using e1 e2 by blast
  show ?thesis
    by (intro conjI addStockMovement_bad_reason reason_not_in_enum third
          handleOrderEvents_movements)
qed

subsection \<open>Quantities never go negative\<close>

lemma validationErrors_Nil_iff:
  "validationErrors d = [] \<longleftrightarrow>
     0 \<le> quantity d \<and> 0 \<le> reservedQuantity d \<and> 0 \<le> availableQuantity d \<and>
     status d \<in> set statusEnum \<and> 0 \<le> lowStockThreshold d \<and> 0 \<le> expiryAlertDays d \<and>
     (\<forall>m \<in> set (stockMovements d). movementErrors m = [])"
  by (auto simp: validationErrors_def)


lemma nonNegative_preSave [simp]: "nonNegative (preSave d) = nonNegative d"
  by (simp add: nonNegative_def preSave_def)

lemma list_all_update: "list_all P xs \<Longrightarrow> P x \<Longrightarrow> list_all P (xs[i := x])"
  by (induction xs arbitrary: i) (auto split: nat.splits)







lemma validate_Inr: "validate schema handler b = Inr r \<Longrightarrow> handler b = Inr r"
  by (auto simp: validate_def split: if_splits)














lemma quantity_updateAvailable [simp]: "quantity (updateAvailable now d) = quantity d"
  by (simp add: updateAvailable_def)

lemma quantity_updateStatus [simp]: "quantity (updateStatus now d) = quantity d"
  by (simp add: updateStatus_def)









subsection \<open>Replayed order events\<close>








subsection \<open>Direct stock movements\<close>

lemma reservedQuantity_moved [simp]:
  "reservedQuantity (updateStatus now d) = reservedQuantity d"
  "reservedQuantity (updateAvailable now d) = reservedQuantity d"
  "reservedQuantity (updateQuantity type qty d) = reservedQuantity d"
  by (simp_all add: updateStatus_def updateAvailable_def updateQuantity_def)

lemma thresholds_moved [simp]:
  "lowStockThreshold (updateStatus now d) = lowStockThreshold d"
  "lowStockThreshold (updateAvailable now d) = lowStockThreshold d"
  "lowStockThreshold (updateQuantity type qty d) = lowStockThreshold d"
  "expiryAlertDays (updateStatus now d) = expiryAlertDays d"
  "expiryAlertDays (updateAvailable now d) = expiryAlertDays d"
  "expiryAlertDays (updateQuantity type qty d) = expiryAlertDays d"
  by (simp_all add: updateStatus_def updateAvailable_def updateQuantity_def)

lemma availableQuantity_moved [simp]:
  "availableQuantity (updateStatus now d) = availableQuantity d"
  "availableQuantity (updateAvailable now d) = max 0 (quantity d - reservedQuantity d)"
  by (simp_all add: updateStatus_def updateAvailable_def)








subsection \<open>Creating a lot\<close>



lemma inventoryData_valid:
  assumes "createInventorySchema b" and "body_reservedQuantity b = None"
    and "body_availableQuantity b = None" and "body_status b = None"
  shows "validationErrors (inventoryData now u b) = []"
  using assms
  by (auto simp: validationErrors_Nil_iff inventoryData_def createInventorySchema_def
        atLeast0_def statusEnum_def split: option.splits)




text \<open>Every creation for a pair that already has a lot under another batch number is
  refused by the unique index.\<close>

lemma fresh_batch_of_stocked_medicine_refused:
  assumes "createInventorySchema b"
    and "map_of (MedicalShop s) (body_shopId b) = Some ownerId"
    and "\<not> notAuthorized ownerId u"
    and "body_medicineId b \<in> set (Medicine s)"
    and "findOne (\<lambda>l. shopId l = body_shopId b \<and> medicineId l = body_medicineId b \<and>
                        batchNumber l = body_batchNumber b) (Inventory s) = None"
    and "list_ex (\<lambda>l. shopId l = body_shopId b \<and> medicineId l = body_medicineId b) (Inventory s)"
    and "body_reservedQuantity b = None"
    and "body_availableQuantity b = None"
    and "body_status b = None"
  shows "validate createInventorySchema (addInventoryItem now s u) b = Inl DuplicateKey"
proof -
  let ?d = "inventoryData now u b"
  have v: "validationErrors ?d = []"
    using assms(1,7,8,9) by (rule inventoryData_valid)
  have "list_ex (\<lambda>l. shopId l = shopId ?d \<and> medicineId l = medicineId ?d) (Inventory s)"
    using assms(6) by (simp add: inventoryData_def)
  then have "create (Inventory s) ?d = Inl DuplicateKey"
    using v by (simp add: create_def)
  then show ?thesis
    using assms(1,2,3,4,5) by (simp add: validate_def addInventoryItem_def)
qed

text \<open>
  Claim C7 says that a lot with a fresh batch number can be created for a shop and
  medicine that already have a lot under another batch number. The controller looks for
  the triple and finds none, but the unique index of the collection is on
  \<open>{shopId, medicineId}\<close> without \<open>batchNumber\<close>: with a lot of batch \<open>B1\<close> stored,
  the creation of batch \<open>B2\<close> of the same medicine in the same shop is refused with a
  duplicate key error.
\<close>

theorem fresh_batch_duplicate_key:
  "validate createInventorySchema
     (addInventoryItem 2 (emptyLedger\<lparr>Inventory := [storedLot 100 0 100]\<rparr>) owner)
     (newLot ''B2'' 50) = Inl DuplicateKey"
  by code_simp

subsection \<open>The derived available quantity\<close>

text \<open>What \<open>save\<close> and \<open>create\<close> store has its available quantity derived.\<close>

lemma save_availableDerived:
  "save coll i d = Inr (coll', d') \<Longrightarrow> availableDerived d' \<and> coll' = coll[i := d']"
  by (auto simp: save_def preSave_def availableDerived_def split: if_splits)

lemma create_availableDerived:
  "create coll d = Inr (coll', d') \<Longrightarrow> availableDerived d' \<and> coll' = coll @ [d']"
  by (auto simp: create_def preSave_def availableDerived_def split: if_splits)

lemma availableDerived_preSave [simp]: "availableDerived (preSave d)"
  by (simp add: availableDerived_def preSave_def)

lemma save_keeps_availableDerived:
  "list_all availableDerived coll \<Longrightarrow> save coll i d = Inr (coll', d') \<Longrightarrow>
   list_all availableDerived coll'"
  by (auto simp: save_def list_all_update split: if_splits)

lemma create_keeps_availableDerived:
  "list_all availableDerived coll \<Longrightarrow> create coll d = Inr (coll', d') \<Longrightarrow>
   list_all availableDerived coll'"
  by (auto simp: create_def split: if_splits)

lemma addStockMovement_keeps_availableDerived:
  "list_all availableDerived coll \<Longrightarrow>
   addStockMovement now coll i d type qty reason performedBy reference notes = Inr (coll', d') \<Longrightarrow>
   list_all availableDerived coll'"
  unfolding addStockMovement_def Let_def by (rule save_keeps_availableDerived)

lemma bulkUpdateItem_keeps_availableDerived:
  "list_all availableDerived coll \<Longrightarrow> list_all availableDerived (bulkUpdateItem shop coll it)"
  by (auto simp: bulkUpdateItem_def split: option.splits sum.splits
        dest: save_keeps_availableDerived)

lemma foldl_bulkUpdateItem_keeps_availableDerived:
  "list_all availableDerived coll \<Longrightarrow>
   list_all availableDerived (foldl (bulkUpdateItem shop) coll its)"
  by (induction its arbitrary: coll) (simp_all add: bulkUpdateItem_keeps_availableDerived)

lemma handleOrderEvents_keeps_availableDerived:
  assumes "list_all availableDerived coll"
  shows "list_all availableDerived (fst (handleOrderEvents now coll ev))"
proof -
  have p: "list_all availableDerived (fst (handleOrderPlaced now coll ev))"
    unfolding handleOrderPlaced_def
    by (rule forEachItem_invariant[where Q = "list_all availableDerived"])
       (simp_all add: fst_placedItem list_all_update assms split: option.splits)
  have c: "list_all availableDerived (fst (handleOrderConfirmed now coll ev))"
    unfolding handleOrderConfirmed_def
    by (rule forEachItem_invariant[where Q = "list_all availableDerived"])
       (simp_all add: fst_confirmedItem list_all_update assms split: option.splits)
  have x: "list_all availableDerived (fst (handleOrderCancelled now coll ev))"
    unfolding handleOrderCancelled_def
    by (rule forEachItem_invariant[where Q = "list_all availableDerived"])
       (simp_all add: fst_cancelledItem list_all_update assms split: option.splits)
  show ?thesis
    using p c x assms by (simp add: handleOrderEvents_def handleOrderDelivered_def)
qed

lemma addInventoryItem_keeps_availableDerived:
  "list_all availableDerived (Inventory s) \<Longrightarrow> addInventoryItem now s u b = Inr s' \<Longrightarrow>
   list_all availableDerived (Inventory s')"
  by (auto simp: addInventoryItem_def split: option.splits if_splits sum.splits
        dest: create_keeps_availableDerived)

lemma addStockMovement_controller_keeps_availableDerived:
  "list_all availableDerived (Inventory s) \<Longrightarrow>
   addStockMovement_controller now s u i b = Inr s' \<Longrightarrow>
   list_all availableDerived (Inventory s')"
  by (auto simp: addStockMovement_controller_def split: option.splits if_splits sum.splits
        dest: addStockMovement_keeps_availableDerived)

lemma updateAlertSettings_keeps_availableDerived:
  "list_all availableDerived (Inventory s) \<Longrightarrow> updateAlertSettings s u i b = Inr s' \<Longrightarrow>
   list_all availableDerived (Inventory s')"
  by (auto simp: updateAlertSettings_def split: option.splits if_splits sum.splits
        dest: save_keeps_availableDerived)

lemma bulkUpdateInventory_keeps_availableDerived:
  "list_all availableDerived (Inventory s) \<Longrightarrow> bulkUpdateInventory s u b = Inr s' \<Longrightarrow>
   list_all availableDerived (Inventory s')"
  by (auto simp: bulkUpdateInventory_def foldl_bulkUpdateItem_keeps_availableDerived
        split: option.splits if_splits)

text \<open>Every operation but the update route keeps the available quantity derived.\<close>

lemma step_keeps_availableDerived:
  assumes "list_all availableDerived (Inventory s)"
    and "\<And>u i b. op \<noteq> UpdateInventoryItem u i b"
  shows "list_all availableDerived (Inventory (step s (now, op)))"
proof (cases op)
  case (AddInventoryItem u b)
  then show ?thesis
    using assms(1)
    by (auto simp: orElse_def split: sum.splits
          dest!: validate_Inr dest: addInventoryItem_keeps_availableDerived)
next
  case (UpdateInventoryItem u i b)
  then show ?thesis using assms(2) by simp
next
  case (AddStockMovement u i b)
  then show ?thesis
    using assms(1)
    by (auto simp: orElse_def split: sum.splits
          dest!: validate_Inr dest: addStockMovement_controller_keeps_availableDerived)
next
  case (BulkUpdateInventory u b)
  then show ?thesis
    using assms(1)
    by (auto simp: orElse_def split: sum.splits
          dest!: validate_Inr dest: bulkUpdateInventory_keeps_availableDerived)
next
  case (UpdateAlertSettings u i b)
  then show ?thesis
    using assms(1)
    by (auto simp: orElse_def split: sum.splits
          dest!: validate_Inr dest: updateAlertSettings_keeps_availableDerived)
next
  case (OrderEvent ev)
  then show ?thesis
    using assms(1) by (simp add: handleOrderEvents_keeps_availableDerived)
qed

text \<open>
  Claim C1 says that \<open>availableQuantity = max(0, quantity - reservedQuantity)\<close> holds
  after every operation that writes a lot, the inventory update included. Every path that
  saves a document recomputes it (the lemmas above); \<open>updateInventoryItem\<close> writes with
  \<open>findByIdAndUpdate\<close>, which runs no \<open>save\<close> middleware: setting the quantity of a
  lot of 100 units to 40 leaves \<open>availableQuantity\<close> at 100.
\<close>

theorem update_leaves_available_stale:
  "run emptyLedger
     [(1, AddInventoryItem owner (newLot ''B1'' 100)),
      (2, UpdateInventoryItem owner 0
            \<lparr>upd_quantity = Some 40, upd_status = None, upd_reservedQuantity = None,
             upd_availableQuantity = None\<rparr>)]
     = emptyLedger\<lparr>Inventory := [storedLot 40 0 100]\<rparr> \<and>
   \<not> availableDerived (storedLot 40 0 100)"
  by code_simp

subsection \<open>The order scenarios\<close>

text \<open>
  Claim C3 (scenario A). A lot is created with quantity 100 and low stock threshold 10;
  a \<open>placed\<close> event then reserves 95. The handler saves \<open>reservedQuantity\<close> 95 and
  \<open>availableQuantity\<close> 5 with the quantity on hand unchanged; its call of
  \<open>addStockMovement\<close> then fails validation on the reason \<open>order_reservation\<close>, so
  no movement is stored and the status, which only that call derives, stays \<open>active\<close>.
\<close>

theorem scenario_A_placed:
  "run emptyLedger [(1, AddInventoryItem owner (newLot ''B1'' 100))]
     = emptyLedger\<lparr>Inventory := [storedLot 100 0 100]\<rparr> \<and>
   handleOrderEvents 2 [storedLot 100 0 100] (orderEvent ''order.placed'' 95)
     = ([storedLot 100 95 5], Some (ValidationError [''stockMovements.reason''])) \<and>
   status (storedLot 100 95 5) = ''active'' \<and>
   stockMovements (storedLot 100 95 5) = []"
  by code_simp

text \<open>
  Claim C4 (scenario B). From the stored state of scenario A, a \<open>confirmed\<close> event for
  95 saves quantity 5, \<open>reservedQuantity\<close> 0 and \<open>availableQuantity\<close> 5; its call of
  \<open>addStockMovement\<close> then fails validation (the reason \<open>order_confirmed\<close>, and the
  quantity \<open>5 - 95\<close> the \<open>out\<close> movement computes), so the status stays \<open>active\<close>
  and no movement is stored.
\<close>

theorem scenario_B_confirmed:
  "handleOrderEvents 3 [storedLot 100 95 5] (orderEvent ''order.confirmed'' 95)
     = ([storedLot 5 0 5], Some (ValidationError [''quantity'', ''stockMovements.reason''])) \<and>
   status (storedLot 5 0 5) = ''active'' \<and>
   length (stockMovements (storedLot 5 0 5)) = 0"
  by code_simp

text \<open>
  Claim C9 (scenario F). With \<open>reservedQuantity\<close> 10, a \<open>cancelled\<close> event for 30
  saves \<open>reservedQuantity\<close> 0; its call of \<open>addStockMovement\<close> then fails validation
  (the reason \<open>order_cancelled\<close> and the performer \<open>system\<close>), so no movement is
  stored.
\<close>

theorem scenario_F_cancelled:
  "handleOrderEvents 3 [storedLot 100 10 90] (orderEvent ''order.cancelled'' 30)
     = ([storedLot 100 0 100],
        Some (ValidationError [''stockMovements.reason'', ''stockMovements.performedBy''])) \<and>
   stockMovements (storedLot 100 0 100) = []"
  by code_simp

end
